theory Spec2Isabelle
  imports Main
begin

section \<open>Python values used by the agent protocol\<close>

text \<open>
  Optional strings (\<^verbatim>\<open>Optional[str]\<close>) are \<open>string option\<close>. The source tests them with
  \<^verbatim>\<open>if x:\<close> and \<^verbatim>\<open>if not x:\<close>, which is false for \<^verbatim>\<open>None\<close> and for the empty string.
\<close>

fun truthy :: "string option \<Rightarrow> bool" where
  "truthy None = False"
| "truthy (Some s) = (s \<noteq> [])"

text \<open>An optional string inside an f-string: \<^verbatim>\<open>None\<close> is rendered as the text None.\<close>

fun str_opt :: "string option \<Rightarrow> string" where
  "str_opt None = ''None''"
| "str_opt (Some s) = s"

text \<open>\<^verbatim>\<open>x or ''\<close> for an optional string.\<close>

fun or_empty :: "string option \<Rightarrow> string" where
  "or_empty None = []"
| "or_empty (Some s) = s"

text \<open>Decimal rendering of an integer, as \<^verbatim>\<open>str\<close> and f-strings do.\<close>

definition digit_char :: "nat \<Rightarrow> char" where
  "digit_char d = ''0123456789'' ! d"

function str_nat :: "nat \<Rightarrow> string" where
  "str_nat n = (if n < 10 then [digit_char n] else str_nat (n div 10) @ [digit_char (n mod 10)])"
  by pat_completeness auto
termination
  by (relation "measure (\<lambda>n. n)") auto

declare str_nat.simps [simp del]

definition str_int :: "int \<Rightarrow> string" where
  "str_int i = (if i < 0 then CHR ''-'' # str_nat (nat (- i)) else str_nat (nat i))"

text \<open>
  The JSON payloads are Python dicts with string keys, built in a fixed order, whose
  values are strings or (for \<^verbatim>\<open>connection_id\<close>) an integer.
\<close>

datatype json = JStr string | JInt int

type_synonym payload = "(string \<times> json) list"

type_synonym datetime = int

section \<open>models/ai\_agents.py\<close>

datatype AgentStatus = ACTIVE | INACTIVE | SUSPENDED | DELETED

text \<open>
  The columns of \<^verbatim>\<open>AIAgent\<close> that the registry and the HCS-10 endpoints read or write.
  The float columns (reputation, balances), \<^verbatim>\<open>profile_metadata\<close>, the transaction
  counters and \<^verbatim>\<open>created_at\<close>/\<^verbatim>\<open>updated_at\<close> are never touched by the functions
  below and are left out. \<^verbatim>\<open>agent_type\<close> is a string column and is kept as a string.
  The primary key \<^verbatim>\<open>id\<close> is \<open>row_id\<close> (\<open>id\<close> is the identity function of HOL).
\<close>

record AIAgent =
  row_id :: int
  account_id :: string
  agent_name :: string
  agent_type :: string
  status :: AgentStatus
  registry_topic_id :: "string option"
  inbound_topic_id :: "string option"
  outbound_topic_id :: "string option"
  capabilities :: "string list option"
  ttl :: int
  max_connections :: int
  active_connections :: int
  messages_sent :: int
  messages_received :: int
  registration_tx_id :: "string option"
  last_activity :: "datetime option"

definition get_hcs10_register_payload :: "AIAgent \<Rightarrow> payload" where
  "get_hcs10_register_payload self =
     [(''p'', JStr ''hcs-10''),
      (''op'', JStr ''register''),
      (''account_id'', JStr (account_id self)),
      (''m'', JStr (''Registering '' @ agent_type self @ '' agent: '' @ agent_name self))]"

definition type_map :: "string \<Rightarrow> string option" where
  "type_map = map_of [(''registry'', ''3''), (''inbound'', ''0''),
                      (''outbound'', ''1''), (''connection'', ''2'')]"

definition get_topic_memo :: "AIAgent \<Rightarrow> string \<Rightarrow> string" where
  "get_topic_memo self topic_type =
     (if topic_type = ''registry'' then
        ''hcs-10:0:'' @ str_int (ttl self) @ '':3:'' @ or_empty (registry_topic_id self)
      else if topic_type = ''inbound'' then
        ''hcs-10:0:'' @ str_int (ttl self) @ '':0:'' @ account_id self
      else if topic_type = ''outbound'' then
        ''hcs-10:0:'' @ str_int (ttl self) @ '':1''
      else
        ''hcs-10:0:'' @ str_int (ttl self) @ '':'' @
          (case type_map topic_type of None \<Rightarrow> ''0'' | Some c \<Rightarrow> c))"

section \<open>The outside world: the Hedera client and the clock\<close>

text \<open>
  Everything the protocol code cannot decide itself is an oracle of the environment:
  \<^item> \<open>mock_mode\<close>: \<^verbatim>\<open>HederaClient.client is None\<close> (the SDK is absent);
  \<^item> \<open>create_outcome n\<close>: what the SDK yields for the \<open>n\<close>-th call of \<^verbatim>\<open>create_topic\<close>
    (\<open>None\<close> when it raises, which the client turns into \<^verbatim>\<open>None\<close>);
  \<^item> \<open>submit_outcome n\<close>: the same for the \<open>n\<close>-th call of \<^verbatim>\<open>submit_message\<close>
    (\<open>None\<close> for an exception or a receipt other than Success);
  \<^item> \<open>clock n\<close>: the \<open>n\<close>-th reading of \<^verbatim>\<open>datetime.utcnow()\<close>.
  The environment also records every call made to the client, oldest first, with its
  result: \<open>created\<close> holds (memo, admin\_key, result) and \<open>submitted\<close> holds
  (topic\_id, message, memo, result).
\<close>

record env =
  mock_mode :: bool
  create_outcome :: "nat \<Rightarrow> string option"
  submit_outcome :: "nat \<Rightarrow> string option"
  clock :: "nat \<Rightarrow> datetime"
  created :: "(string \<times> bool \<times> string option) list"
  submitted :: "(string option \<times> payload \<times> string \<times> string option) list"
  ticks :: nat

definition utcnow :: "env \<Rightarrow> datetime \<times> env" where
  "utcnow e = (clock e (ticks e), e\<lparr>ticks := Suc (ticks e)\<rparr>)"

definition create_topic :: "env \<Rightarrow> string \<Rightarrow> bool \<Rightarrow> string option \<times> env" where
  "create_topic e memo admin_key =
     (let r = (if mock_mode e then Some ''0.0.999999''
               else create_outcome e (length (created e)))
      in (r, e\<lparr>created := created e @ [(memo, admin_key, r)]\<rparr>))"

definition submit_message ::
  "env \<Rightarrow> string option \<Rightarrow> payload \<Rightarrow> string \<Rightarrow> string option \<times> env" where
  "submit_message e topic_id message memo =
     (let r = (if mock_mode e then Some ''0.0.123456@1234567890.123456789''
               else submit_outcome e (length (submitted e)))
      in (r, e\<lparr>submitted := submitted e @ [(topic_id, message, memo, r)]\<rparr>))"

subsection \<open>The counters of an agent\<close>

definition update_activity :: "env \<Rightarrow> AIAgent \<Rightarrow> env \<times> AIAgent" where
  "update_activity e self =
     (let (t, e') = utcnow e in (e', self\<lparr>last_activity := Some t\<rparr>))"

definition increment_messages_sent :: "env \<Rightarrow> AIAgent \<Rightarrow> env \<times> AIAgent" where
  "increment_messages_sent e self =
     update_activity e (self\<lparr>messages_sent := messages_sent self + 1\<rparr>)"

definition increment_messages_received :: "env \<Rightarrow> AIAgent \<Rightarrow> env \<times> AIAgent" where
  "increment_messages_received e self =
     update_activity e (self\<lparr>messages_received := messages_received self + 1\<rparr>)"

section \<open>hcs10/agent\_registry.py\<close>

text \<open>
  The registry object holds the registry topic id and the default TTL; its two fields
  carry the prefix \<open>self_\<close> because the agent record has fields of the same names.
  Each method takes the environment, the registry and the agent objects it mutates and
  returns its result together with the new values of all three.
\<close>

record AgentRegistry =
  self_registry_topic_id :: "string option"
  self_ttl :: int

definition initialize_registry ::
  "env \<Rightarrow> AgentRegistry \<Rightarrow> string option \<times> env \<times> AgentRegistry" where
  "initialize_registry e self =
     (if truthy (self_registry_topic_id self) then (self_registry_topic_id self, e, self)
      else
        let memo = ''hcs-10:0:'' @ str_int (self_ttl self) @ '':3:'';
            (topic_id, e1) = create_topic e memo True
        in (topic_id, e1,
            if truthy topic_id then self\<lparr>self_registry_topic_id := topic_id\<rparr> else self))"

definition register_agent ::
  "env \<Rightarrow> AgentRegistry \<Rightarrow> AIAgent \<Rightarrow> string option \<times> env \<times> AgentRegistry \<times> AIAgent" where
  "register_agent e self agent =
     (let (e1, self1) =
            (if \<not> truthy (self_registry_topic_id self)
             then (let (t, e', self') = initialize_registry e self in (e', self'))
             else (e, self))
      in if \<not> truthy (self_registry_topic_id self1) then (None, e1, self1, agent)
         else
           let register_payload = get_hcs10_register_payload agent;
               (tx_id, e2) = submit_message e1 (self_registry_topic_id self1)
                               register_payload ''hcs-10:op:0:0''
           in (tx_id, e2, self1,
               if truthy tx_id
               then agent\<lparr>registration_tx_id := tx_id, status := ACTIVE\<rparr>
               else agent))"

definition delete_agent ::
  "env \<Rightarrow> AgentRegistry \<Rightarrow> AIAgent \<Rightarrow> string \<Rightarrow> string option \<times> env \<times> AIAgent" where
  "delete_agent e self agent uid =
     (if \<not> truthy (self_registry_topic_id self) then (None, e, agent)
      else
        let delete_payload =
              [(''p'', JStr ''hcs-10''),
               (''op'', JStr ''delete''),
               (''uid'', JStr uid),
               (''m'', JStr (''Removing agent '' @ agent_name agent @ '' from registry.''))];
            (tx_id, e1) = submit_message e (self_registry_topic_id self)
                            delete_payload ''hcs-10:op:1:0''
        in (tx_id, e1, if truthy tx_id then agent\<lparr>status := DELETED\<rparr> else agent))"

text \<open>The returned dict \<^verbatim>\<open>{"inbound": .., "outbound": ..}\<close> is the pair (inbound, outbound).\<close>

definition create_agent_topics ::
  "env \<Rightarrow> AIAgent \<Rightarrow> (string option \<times> string option) \<times> env \<times> AIAgent" where
  "create_agent_topics e agent =
     (let inbound_memo = get_topic_memo agent ''inbound'';
          (inbound_topic_id', e1) = create_topic e inbound_memo True;
          topics_inbound = (if truthy inbound_topic_id' then inbound_topic_id' else None);
          agent1 = (if truthy inbound_topic_id'
                    then agent\<lparr>inbound_topic_id := inbound_topic_id'\<rparr> else agent);
          outbound_memo = get_topic_memo agent1 ''outbound'';
          (outbound_topic_id', e2) = create_topic e1 outbound_memo True;
          topics_outbound = (if truthy outbound_topic_id' then outbound_topic_id' else None);
          agent2 = (if truthy outbound_topic_id'
                    then agent1\<lparr>outbound_topic_id := outbound_topic_id'\<rparr> else agent1)
      in ((topics_inbound, topics_outbound), e2, agent2))"

text \<open>
  The sender address: the account id, an at sign and the inbound topic id, which four
  methods build with the same f-string.
\<close>

definition operator_id_of :: "AIAgent \<Rightarrow> string" where
  "operator_id_of a = account_id a @ ''@'' @ str_opt (inbound_topic_id a)"

definition send_connection_request ::
  "env \<Rightarrow> AIAgent \<Rightarrow> string \<Rightarrow> string option \<times> env \<times> AIAgent" where
  "send_connection_request e from_agent to_agent_inbound_topic =
     (if \<not> truthy (outbound_topic_id from_agent) then (None, e, from_agent)
      else
        let connection_request =
              [(''p'', JStr ''hcs-10''),
               (''op'', JStr ''connection_request''),
               (''operator_id'', JStr (operator_id_of from_agent)),
               (''m'', JStr (''Requesting connection from '' @ agent_name from_agent))];
            (tx_id, e1) = submit_message e (Some to_agent_inbound_topic)
                            connection_request ''hcs-10:op:3:1''
        in if truthy tx_id
           then (let (e2, from_agent') = increment_messages_sent e1 from_agent
                 in (tx_id, e2, from_agent'))
           else (tx_id, e1, from_agent))"

text \<open>The private method \<^verbatim>\<open>_notify_connection_created\<close>, without its leading underscore.\<close>

definition notify_connection_created ::
  "env \<Rightarrow> AIAgent \<Rightarrow> AIAgent \<Rightarrow> string \<Rightarrow> int \<Rightarrow> string option \<times> env \<times> AIAgent" where
  "notify_connection_created e to_agent from_agent connection_topic_id connection_id =
     (let connection_created =
            [(''p'', JStr ''hcs-10''),
             (''op'', JStr ''connection_created''),
             (''connection_topic_id'', JStr connection_topic_id),
             (''connected_account_id'', JStr (account_id from_agent)),
             (''operator_id'', JStr (operator_id_of from_agent)),
             (''connection_id'', JInt connection_id),
             (''m'', JStr (''Connection established with '' @ agent_name from_agent))];
          (tx_id, e1) = submit_message e (inbound_topic_id to_agent)
                          connection_created ''hcs-10:op:4:1''
      in if truthy tx_id
         then (let (e2, to_agent') = increment_messages_received e1 to_agent
               in (tx_id, e2,
                   to_agent'\<lparr>active_connections := active_connections to_agent' + 1\<rparr>))
         else (tx_id, e1, to_agent))"

definition send_message ::
  "env \<Rightarrow> AIAgent \<Rightarrow> string \<Rightarrow> string \<Rightarrow> string option \<times> env \<times> AIAgent" where
  "send_message e from_agent connection_topic_id message_data =
     (let message_payload =
            [(''p'', JStr ''hcs-10''),
             (''op'', JStr ''message''),
             (''operator_id'', JStr (operator_id_of from_agent)),
             (''data'', JStr message_data),
             (''m'', JStr ''Standard communication.'')];
          (tx_id, e1) = submit_message e (Some connection_topic_id)
                          message_payload ''hcs-10:op:6:3''
      in if truthy tx_id
         then (let (e2, from_agent') = increment_messages_sent e1 from_agent
               in (tx_id, e2, from_agent'))
         else (tx_id, e1, from_agent))"

definition send_transaction_request ::
  "env \<Rightarrow> AIAgent \<Rightarrow> string \<Rightarrow> string \<Rightarrow> string \<Rightarrow> string option \<times> env \<times> AIAgent" where
  "send_transaction_request e from_agent connection_topic_id schedule_id transaction_data =
     (let transaction_payload =
            [(''p'', JStr ''hcs-10''),
             (''op'', JStr ''transaction''),
             (''operator_id'', JStr (operator_id_of from_agent)),
             (''schedule_id'', JStr schedule_id),
             (''data'', JStr transaction_data),
             (''m'', JStr ''For your approval.'')];
          (tx_id, e1) = submit_message e (Some connection_topic_id)
                          transaction_payload ''hcs-10:op:7:3''
      in if truthy tx_id
         then (let (e2, from_agent') = increment_messages_sent e1 from_agent
               in (tx_id, e2, from_agent'))
         else (tx_id, e1, from_agent))"

text \<open>
  \<^verbatim>\<open>create_connection_topic\<close> mutates two agent objects that the caller may pass as one
  and the same object, so the agents live in a store indexed by object identity.
\<close>

type_synonym ref = nat

type_synonym heap = "ref \<Rightarrow> AIAgent"

definition create_connection_topic ::
  "env \<Rightarrow> AgentRegistry \<Rightarrow> heap \<Rightarrow> ref \<Rightarrow> ref \<Rightarrow> int \<Rightarrow> string option \<times> env \<times> heap" where
  "create_connection_topic e self h agent_a agent_b connection_id =
     (let memo = ''hcs-10:1:'' @ str_int (self_ttl self) @ '':2:'' @
                 str_opt (inbound_topic_id (h agent_a)) @ '':'' @ str_int connection_id;
          (connection_topic_id, e1) = create_topic e memo True
      in case connection_topic_id of
           None \<Rightarrow> (connection_topic_id, e1, h)
         | Some t \<Rightarrow>
             if t = [] then (connection_topic_id, e1, h)
             else
               let (tx_a, e2, a') =
                     notify_connection_created e1 (h agent_a) (h agent_b) t connection_id;
                   h1 = h(agent_a := a');
                   (tx_b, e3, b') =
                     notify_connection_created e2 (h1 agent_b) (h1 agent_a) t connection_id;
                   h2 = h1(agent_b := b')
               in (connection_topic_id, e3, h2))"

section \<open>api/v1/endpoints/hcs10\_communication.py\<close>

text \<open>
  The table \<^verbatim>\<open>ai_agents\<close> is the list of its rows. A query by account id returns the
  matching rows; \<^verbatim>\<open>scalar_one_or_none\<close> raises when there is more than one, and every
  endpoint turns an exception other than its own \<^verbatim>\<open>HTTPException\<close> into a 500.
  An endpoint returns the HTTP error or its response together with the environment, the
  registry and the table as it leaves them; a change to a loaded row reaches the table
  only through \<^verbatim>\<open>db.commit()\<close>. The endpoints \<^verbatim>\<open>register_agent\<close> and \<^verbatim>\<open>send_message\<close>
  carry the suffix \<open>_endpoint\<close>, since the registry has methods of the same names.
\<close>

datatype http_error =
  HTTP_409_CONFLICT | HTTP_404_NOT_FOUND | HTTP_500_INTERNAL_SERVER_ERROR

type_synonym database = "AIAgent list"

definition select_by_account_id :: "database \<Rightarrow> string \<Rightarrow> AIAgent list" where
  "select_by_account_id db acc = filter (\<lambda>a. account_id a = acc) db"

fun scalar_one_or_none :: "AIAgent list \<Rightarrow> unit + AIAgent option" where
  "scalar_one_or_none [] = Inr None"
| "scalar_one_or_none [a] = Inr (Some a)"
| "scalar_one_or_none (a # b # rows) = Inl ()"

text \<open>The autoincremented primary key of a new row.\<close>

definition next_id :: "database \<Rightarrow> int" where
  "next_id db = foldr max (map row_id db) 0 + 1"

text \<open>Writing a loaded and mutated row back.\<close>

definition db_commit :: "database \<Rightarrow> AIAgent \<Rightarrow> database" where
  "db_commit db agent = map (\<lambda>r. if row_id r = row_id agent then agent else r) db"

record AgentRegistrationRequest =
  req_agent_name :: string
  req_agent_type :: string
  req_account_id :: string
  req_capabilities :: "string list option"
  req_max_connections :: "int option"

record registration_response =
  resp_agent_id :: int
  resp_account_id :: string
  resp_registration_tx_id :: "string option"
  resp_inbound_topic_id :: "string option"
  resp_outbound_topic_id :: "string option"

text \<open>
  \<^verbatim>\<open>AIAgent(...)\<close> followed by \<^verbatim>\<open>db.add\<close>, \<^verbatim>\<open>commit\<close> and \<^verbatim>\<open>refresh\<close>: the row gets its
  key and the column defaults. \<^verbatim>\<open>request.max_connections or 100\<close> replaces both
  \<^verbatim>\<open>None\<close> and 0 by 100.
\<close>

definition new_agent :: "database \<Rightarrow> datetime \<Rightarrow> AgentRegistrationRequest \<Rightarrow> AIAgent" where
  "new_agent db now request =
     \<lparr> row_id = next_id db,
       account_id = req_account_id request,
       agent_name = req_agent_name request,
       agent_type = req_agent_type request,
       status = INACTIVE,
       registry_topic_id = None,
       inbound_topic_id = None,
       outbound_topic_id = None,
       capabilities = req_capabilities request,
       ttl = 60,
       max_connections =
         (case req_max_connections request of
            None \<Rightarrow> 100 | Some m \<Rightarrow> if m = 0 then 100 else m),
       active_connections = 0,
       messages_sent = 0,
       messages_received = 0,
       registration_tx_id = None,
       last_activity = Some now \<rparr>"

definition register_agent_endpoint ::
  "env \<Rightarrow> AgentRegistry \<Rightarrow> database \<Rightarrow> AgentRegistrationRequest \<Rightarrow>
   (http_error + registration_response) \<times> env \<times> AgentRegistry \<times> database" where
  "register_agent_endpoint e agent_registry db request =
     (case scalar_one_or_none (select_by_account_id db (req_account_id request)) of
        Inl u \<Rightarrow> (Inl HTTP_500_INTERNAL_SERVER_ERROR, e, agent_registry, db)
      | Inr (Some existing_agent) \<Rightarrow> (Inl HTTP_409_CONFLICT, e, agent_registry, db)
      | Inr None \<Rightarrow>
          let (now, e0) = utcnow e;
              agent = new_agent db now request;
              db1 = db @ [agent];
              (topics, e1, agent1) = create_agent_topics e0 agent;
              (registration_tx_id', e2, agent_registry1, agent2) =
                 register_agent e1 agent_registry agent1;
              agent3 = (if truthy registration_tx_id'
                        then agent2\<lparr>registration_tx_id := registration_tx_id',
                                    status := ACTIVE\<rparr>
                        else agent2);
              db2 = (if truthy registration_tx_id' then db_commit db1 agent3 else db1)
          in (Inr \<lparr> resp_agent_id = row_id agent3,
                    resp_account_id = account_id agent3,
                    resp_registration_tx_id = registration_tx_id',
                    resp_inbound_topic_id = inbound_topic_id agent3,
                    resp_outbound_topic_id = outbound_topic_id agent3 \<rparr>,
              e2, agent_registry1, db2))"

text \<open>
  The three sending endpoints answer \<^verbatim>\<open>{"status": .., "tx_id": ..}\<close>, where the status is
  success exactly when the transaction id is truthy; the response is the transaction id.
\<close>

definition request_connection ::
  "env \<Rightarrow> database \<Rightarrow> string \<Rightarrow> string \<Rightarrow> (http_error + string option) \<times> env \<times> database" where
  "request_connection e db from_agent_id to_agent_inbound_topic =
     (case scalar_one_or_none (select_by_account_id db from_agent_id) of
        Inl u \<Rightarrow> (Inl HTTP_500_INTERNAL_SERVER_ERROR, e, db)
      | Inr None \<Rightarrow> (Inl HTTP_404_NOT_FOUND, e, db)
      | Inr (Some from_agent) \<Rightarrow>
          let (tx_id, e1, from_agent1) =
                send_connection_request e from_agent to_agent_inbound_topic
          in (Inr tx_id, e1, if truthy tx_id then db_commit db from_agent1 else db))"

definition send_message_endpoint ::
  "env \<Rightarrow> database \<Rightarrow> string \<Rightarrow> string \<Rightarrow> string \<Rightarrow>
   (http_error + string option) \<times> env \<times> database" where
  "send_message_endpoint e db from_agent_id connection_topic_id message_data =
     (case scalar_one_or_none (select_by_account_id db from_agent_id) of
        Inl u \<Rightarrow> (Inl HTTP_500_INTERNAL_SERVER_ERROR, e, db)
      | Inr None \<Rightarrow> (Inl HTTP_404_NOT_FOUND, e, db)
      | Inr (Some from_agent) \<Rightarrow>
          let (tx_id, e1, from_agent1) =
                send_message e from_agent connection_topic_id message_data
          in (Inr tx_id, e1, if truthy tx_id then db_commit db from_agent1 else db))"

definition request_transaction ::
  "env \<Rightarrow> database \<Rightarrow> string \<Rightarrow> string \<Rightarrow> string \<Rightarrow> string \<Rightarrow>
   (http_error + string option) \<times> env \<times> database" where
  "request_transaction e db from_agent_id connection_topic_id schedule_id transaction_data =
     (case scalar_one_or_none (select_by_account_id db from_agent_id) of
        Inl u \<Rightarrow> (Inl HTTP_500_INTERNAL_SERVER_ERROR, e, db)
      | Inr None \<Rightarrow> (Inl HTTP_404_NOT_FOUND, e, db)
      | Inr (Some from_agent) \<Rightarrow>
          let (tx_id, e1, from_agent1) =
                send_transaction_request e from_agent connection_topic_id
                  schedule_id transaction_data
          in if truthy tx_id
             then (let (e2, from_agent2) = increment_messages_sent e1 from_agent1
                   in (Inr tx_id, e2, db_commit db from_agent2))
             else (Inr tx_id, e1, db))"

section \<open>Sequences of protocol operations on one agent record\<close>

text \<open>
  The operations of the registry that a caller can apply to one agent record, with their
  arguments, and the state reached by applying a list of them in order.
\<close>

datatype operation =
  Register
| Delete string
| CreateTopics
| ConnectionRequest string
| ConnectionCreated AIAgent string int
| Message string string
| Transaction string string string

type_synonym state = "env \<times> AgentRegistry \<times> AIAgent"

fun perform :: "state \<Rightarrow> operation \<Rightarrow> state" where
  "perform (e, reg, a) Register =
     (let (tx, e', reg', a') = register_agent e reg a in (e', reg', a'))"
| "perform (e, reg, a) (Delete uid) =
     (let (tx, e', a') = delete_agent e reg a uid in (e', reg, a'))"
| "perform (e, reg, a) CreateTopics =
     (let (topics, e', a') = create_agent_topics e a in (e', reg, a'))"
| "perform (e, reg, a) (ConnectionRequest to_topic) =
     (let (tx, e', a') = send_connection_request e a to_topic in (e', reg, a'))"
| "perform (e, reg, a) (ConnectionCreated from_agent topic connection_id) =
     (let (tx, e', a') = notify_connection_created e a from_agent topic connection_id
      in (e', reg, a'))"
| "perform (e, reg, a) (Message topic data) =
     (let (tx, e', a') = send_message e a topic data in (e', reg, a'))"
| "perform (e, reg, a) (Transaction topic schedule_id data) =
     (let (tx, e', a') = send_transaction_request e a topic schedule_id data
      in (e', reg, a'))"

definition run :: "state \<Rightarrow> operation list \<Rightarrow> state" where
  "run s ops = foldl perform s ops"

definition agent_of :: "state \<Rightarrow> AIAgent" where
  "agent_of s = snd (snd s)"

text \<open>
  How many connection-created notifications to the agent of a state were counted along a
  list of operations: an operation counts when it is a notification whose submission
  returned a transaction id.
\<close>

fun notified :: "state \<Rightarrow> operation \<Rightarrow> nat" where
  "notified (e, reg, a) (ConnectionCreated from_agent topic connection_id) =
     (if truthy (fst (notify_connection_created e a from_agent topic connection_id))
      then 1 else 0)"
| "notified s other = 0"

fun notifications :: "state \<Rightarrow> operation list \<Rightarrow> nat" where
  "notifications s [] = 0"
| "notifications s (op # ops) = notified s op + notifications (perform s op) ops"

section \<open>Reading the log of submissions\<close>

text \<open>
  A payload is a connection-created envelope for a given connection topic, connection id
  and peer account; \<open>results e\<close> lists the results of all submissions so far and
  \<open>appended_since e e'\<close> those of the submissions made between \<open>e\<close> and \<open>e'\<close>.
\<close>

definition is_connection_created :: "payload \<Rightarrow> string \<Rightarrow> int \<Rightarrow> string \<Rightarrow> bool" where
  "is_connection_created m topic connection_id peer \<longleftrightarrow>
     map_of m ''op'' = Some (JStr ''connection_created'') \<and>
     map_of m ''connection_topic_id'' = Some (JStr topic) \<and>
     map_of m ''connection_id'' = Some (JInt connection_id) \<and>
     map_of m ''connected_account_id'' = Some (JStr peer)"

definition results :: "env \<Rightarrow> string option list" where
  "results e = map (\<lambda>(t, m, memo, r). r) (submitted e)"

definition appended_since :: "env \<Rightarrow> env \<Rightarrow> string option list" where
  "appended_since e e' = drop (length (submitted e)) (results e')"

section \<open>Example scenarios\<close>

text \<open>
  Four clients: one without the SDK (every call answers with the mock constants), one
  whose every SDK call fails, one whose inbound topic creation fails while the outbound
  one succeeds, and one whose topic creations all fail while its submissions succeed.
\<close>

definition mock_env :: env where
  "mock_env = \<lparr> mock_mode = True, create_outcome = (\<lambda>n. None),
                submit_outcome = (\<lambda>n. None), clock = (\<lambda>n. 1000 + int n),
                created = [], submitted = [], ticks = 0 \<rparr>"

definition failing_env :: env where
  "failing_env = \<lparr> mock_mode = False, create_outcome = (\<lambda>n. None),
                   submit_outcome = (\<lambda>n. None), clock = (\<lambda>n. 1000 + int n),
                   created = [], submitted = [], ticks = 0 \<rparr>"

definition outbound_only_env :: env where
  "outbound_only_env = \<lparr> mock_mode = False,
       create_outcome = (\<lambda>n. if n = 0 then None else Some ''0.0.102''),
       submit_outcome = (\<lambda>n. None), clock = (\<lambda>n. 1000 + int n),
       created = [], submitted = [], ticks = 0 \<rparr>"

definition topicless_env :: env where
  "topicless_env = \<lparr> mock_mode = False, create_outcome = (\<lambda>n. None),
                     submit_outcome = (\<lambda>n. Some ''0.0.2@1.1''), clock = (\<lambda>n. 1000 + int n),
                     created = [], submitted = [], ticks = 0 \<rparr>"

text \<open>
  Agents A and B of the specification's example, registered with both topics, A with
  \<open>max_connections = 1\<close>; a freshly inserted record without topics; a registry whose
  topic exists.
\<close>

definition agent_A :: AIAgent where
  "agent_A = \<lparr> row_id = 1, account_id = ''0.0.100'', agent_name = ''A'',
               agent_type = ''general_purpose'', status = ACTIVE,
               registry_topic_id = None, inbound_topic_id = Some ''0.0.101'',
               outbound_topic_id = Some ''0.0.102'', capabilities = None, ttl = 60,
               max_connections = 1, active_connections = 0, messages_sent = 0,
               messages_received = 0, registration_tx_id = Some ''tx-A'',
               last_activity = Some 0 \<rparr>"

definition agent_B :: AIAgent where
  "agent_B = \<lparr> row_id = 2, account_id = ''0.0.200'', agent_name = ''B'',
               agent_type = ''general_purpose'', status = ACTIVE,
               registry_topic_id = None, inbound_topic_id = Some ''0.0.201'',
               outbound_topic_id = Some ''0.0.202'', capabilities = None, ttl = 60,
               max_connections = 100, active_connections = 0, messages_sent = 0,
               messages_received = 0, registration_tx_id = Some ''tx-B'',
               last_activity = Some 0 \<rparr>"

definition agent_new :: AIAgent where
  "agent_new = \<lparr> row_id = 1, account_id = ''0.0.100'', agent_name = ''A'',
               agent_type = ''general_purpose'', status = INACTIVE,
               registry_topic_id = None, inbound_topic_id = None,
               outbound_topic_id = None, capabilities = None, ttl = 60,
               max_connections = 1, active_connections = 0, messages_sent = 0,
               messages_received = 0, registration_tx_id = None,
               last_activity = Some 0 \<rparr>"

definition registry_0 :: AgentRegistry where
  "registry_0 = \<lparr> self_registry_topic_id = Some ''0.0.5'', self_ttl = 60 \<rparr>"

definition handshake_heap :: heap where
  "handshake_heap = (\<lambda>r. if r = 0 then agent_A else agent_B)"

definition state_A :: state where
  "state_A = (mock_env, registry_0, agent_A)"

text \<open>
  The registration request for agent A, and what the registration endpoint returns for it
  on an empty table with each of three clients.
\<close>

definition request_A :: AgentRegistrationRequest where
  "request_A = \<lparr> req_agent_name = ''A'', req_agent_type = ''general_purpose'',
                 req_account_id = ''0.0.100'', req_capabilities = None,
                 req_max_connections = Some 1 \<rparr>"

definition first_registration ::
  "(http_error + registration_response) \<times> env \<times> AgentRegistry \<times> database" where
  "first_registration = register_agent_endpoint mock_env registry_0 [] request_A"

definition topicless_registration ::
  "(http_error + registration_response) \<times> env \<times> AgentRegistry \<times> database" where
  "topicless_registration = register_agent_endpoint topicless_env registry_0 [] request_A"

definition failing_registration ::
  "(http_error + registration_response) \<times> env \<times> AgentRegistry \<times> database" where
  "failing_registration = register_agent_endpoint failing_env registry_0 [] request_A"

section \<open>Facts about the example scenarios\<close>

lemma agent_A_fields:
  "account_id agent_A = ''0.0.100''" "inbound_topic_id agent_A = Some ''0.0.101''"
  "outbound_topic_id agent_A = Some ''0.0.102''" "messages_sent agent_A = 0"
  "active_connections agent_A = 0" "max_connections agent_A = 1" "status agent_A = ACTIVE"
  by (simp_all add: agent_A_def)

lemma agent_B_fields:
  "account_id agent_B = ''0.0.200''" "inbound_topic_id agent_B = Some ''0.0.201''"
  "outbound_topic_id agent_B = Some ''0.0.202''" "messages_sent agent_B = 0"
  "active_connections agent_B = 0" "max_connections agent_B = 100" "status agent_B = ACTIVE"
  by (simp_all add: agent_B_def)

lemma mock_env_fields:
  "mock_mode mock_env" "submitted mock_env = []" "created mock_env = []"
  "ticks mock_env = 0" "clock mock_env n = 1000 + int n"
  by (simp_all add: mock_env_def)

lemma state_A_fields:
  "agent_of state_A = agent_A" "fst state_A = mock_env"
  by (simp_all add: state_A_def agent_of_def)

lemma registry_0_ready: "truthy (self_registry_topic_id registry_0)"
  by (simp add: registry_0_def)

section \<open>Effects of the client calls and of the counters\<close>

lemma submit_message_eq:
  "submit_message e t m memo = (r, e') \<longleftrightarrow>
     r = (if mock_mode e then Some ''0.0.123456@1234567890.123456789''
          else submit_outcome e (length (submitted e))) \<and>
     e' = e\<lparr>submitted := submitted e @ [(t, m, memo, r)]\<rparr>"
  by (auto simp: submit_message_def Let_def)

lemma create_topic_eq:
  "create_topic e memo k = (r, e') \<longleftrightarrow>
     r = (if mock_mode e then Some ''0.0.999999''
          else create_outcome e (length (created e))) \<and>
     e' = e\<lparr>created := created e @ [(memo, k, r)]\<rparr>"
  by (auto simp: create_topic_def Let_def)

lemma create_topic_result:
  "fst (create_topic e memo k) =
     (if mock_mode e then Some ''0.0.999999'' else create_outcome e (length (created e)))"
  by (simp add: create_topic_def Let_def)

lemma create_topic_env:
  "submitted (snd (create_topic e memo k)) = submitted e"
  "mock_mode (snd (create_topic e memo k)) = mock_mode e"
  "ticks (snd (create_topic e memo k)) = ticks e"
  by (simp_all add: create_topic_def Let_def)

lemma results_create_topic: "results (snd (create_topic e memo k)) = results e"
  by (simp add: results_def create_topic_env)

lemma length_results: "length (results e) = length (submitted e)"
  by (simp add: results_def)

lemma increment_messages_sent_eq:
  "increment_messages_sent e a =
     (e\<lparr>ticks := Suc (ticks e)\<rparr>,
      a\<lparr>messages_sent := messages_sent a + 1, last_activity := Some (clock e (ticks e))\<rparr>)"
  by (simp add: increment_messages_sent_def update_activity_def utcnow_def)

lemma increment_messages_received_eq:
  "increment_messages_received e a =
     (e\<lparr>ticks := Suc (ticks e)\<rparr>,
      a\<lparr>messages_received := messages_received a + 1,
        last_activity := Some (clock e (ticks e))\<rparr>)"
  by (simp add: increment_messages_received_def update_activity_def utcnow_def)

section \<open>Effects of the registry methods\<close>

subsection \<open>Topic creation for an agent\<close>

lemma create_agent_topics_effect:
  "create_agent_topics e agent = ((t_in, t_out), e', agent') \<Longrightarrow>
     (\<exists>r_in r_out.
        created e' = created e @ [(get_topic_memo agent ''inbound'', True, r_in),
                                  (get_topic_memo agent ''outbound'', True, r_out)] \<and>
        inbound_topic_id agent' = (if truthy r_in then r_in else inbound_topic_id agent) \<and>
        outbound_topic_id agent' = (if truthy r_out then r_out else outbound_topic_id agent) \<and>
        t_in = (if truthy r_in then r_in else None) \<and>
        t_out = (if truthy r_out then r_out else None) \<and>
        agent' = agent\<lparr>inbound_topic_id := inbound_topic_id agent',
                        outbound_topic_id := outbound_topic_id agent'\<rparr>)"
proof -
  assume run: "create_agent_topics e agent = ((t_in, t_out), e', agent')"
  obtain r_in e1 where c1: "create_topic e (get_topic_memo agent ''inbound'') True = (r_in, e1)"
    by (cases "create_topic e (get_topic_memo agent ''inbound'') True") blast
  define agent1 where "agent1 = (if truthy r_in then agent\<lparr>inbound_topic_id := r_in\<rparr> else agent)"
  obtain r_out e2 where c2: "create_topic e1 (get_topic_memo agent1 ''outbound'') True = (r_out, e2)"
    by (cases "create_topic e1 (get_topic_memo agent1 ''outbound'') True") blast
  have memo: "get_topic_memo agent1 ''outbound'' = get_topic_memo agent ''outbound''"
    by (simp add: agent1_def get_topic_memo_def)
  from c1 c2 have "create_agent_topics e agent =
      ((if truthy r_in then r_in else None, if truthy r_out then r_out else None), e2,
       if truthy r_out then agent1\<lparr>outbound_topic_id := r_out\<rparr> else agent1)"
    unfolding agent1_def by (simp add: create_agent_topics_def Let_def)
  with run have res:
    "t_in = (if truthy r_in then r_in else None)"
    "t_out = (if truthy r_out then r_out else None)"
    "e' = e2"
    "agent' = (if truthy r_out then agent1\<lparr>outbound_topic_id := r_out\<rparr> else agent1)"
    by simp_all
  from c1 have e1: "created e1 = created e @ [(get_topic_memo agent ''inbound'', True, r_in)]"
    by (simp add: create_topic_eq)
  from c2 have e2: "created e2 = created e1 @ [(get_topic_memo agent ''outbound'', True, r_out)]"
    by (simp add: create_topic_eq memo)
  have "created e' = created e @ [(get_topic_memo agent ''inbound'', True, r_in),
                                  (get_topic_memo agent ''outbound'', True, r_out)]"
    by (simp add: res e1 e2)
  moreover have "inbound_topic_id agent' = (if truthy r_in then r_in else inbound_topic_id agent)"
    by (simp add: res agent1_def)
  moreover have "outbound_topic_id agent' = (if truthy r_out then r_out else outbound_topic_id agent)"
    by (simp add: res agent1_def)
  moreover have "agent' = agent\<lparr>inbound_topic_id := inbound_topic_id agent',
                        outbound_topic_id := outbound_topic_id agent'\<rparr>"
    by (simp add: res agent1_def)
  ultimately show ?thesis using res(1,2) by blast
qed

lemma create_agent_topics_agent:
  "snd (snd (create_agent_topics e a)) =
     a\<lparr>inbound_topic_id := inbound_topic_id (snd (snd (create_agent_topics e a))),
       outbound_topic_id := outbound_topic_id (snd (snd (create_agent_topics e a)))\<rparr>"
proof -
  let ?r = "create_agent_topics e a"
  have "?r = ((fst (fst ?r), snd (fst ?r)), fst (snd ?r), snd (snd ?r))" by simp
  from create_agent_topics_effect [OF this] show ?thesis by blast
qed

lemma create_agent_topics_keeps:
  "row_id (snd (snd (create_agent_topics e a))) = row_id a"
  "account_id (snd (snd (create_agent_topics e a))) = account_id a"
  "status (snd (snd (create_agent_topics e a))) = status a"
  by (subst create_agent_topics_agent, simp)+

lemma create_agent_topics_env:
  "mock_mode (fst (snd (create_agent_topics e a))) = mock_mode e"
  "submit_outcome (fst (snd (create_agent_topics e a))) = submit_outcome e"
  "submitted (fst (snd (create_agent_topics e a))) = submitted e"
  by (simp_all add: create_agent_topics_def Let_def split_beta create_topic_def)

lemma create_agent_topics_ids:
  "inbound_topic_id (snd (snd (create_agent_topics e a))) =
     (if mock_mode e then Some ''0.0.999999''
      else if truthy (create_outcome e (length (created e)))
           then create_outcome e (length (created e)) else inbound_topic_id a)"
  "outbound_topic_id (snd (snd (create_agent_topics e a))) =
     (if mock_mode e then Some ''0.0.999999''
      else if truthy (create_outcome e (Suc (length (created e))))
           then create_outcome e (Suc (length (created e))) else outbound_topic_id a)"
  by (simp_all add: create_agent_topics_def Let_def split_beta create_topic_def)

lemma create_agent_topics_one_sided:
  "inbound_topic_id (snd (snd (create_agent_topics outbound_only_env agent_new))) = None"
  "outbound_topic_id (snd (snd (create_agent_topics outbound_only_env agent_new))) = Some ''0.0.102''"
  by (simp_all add: create_agent_topics_ids outbound_only_env_def agent_new_def)

subsection \<open>What each method does to the agent it mutates\<close>

lemma register_agent_agent:
  "snd (snd (snd (register_agent e reg a))) =
     (if truthy (fst (register_agent e reg a))
      then a\<lparr>registration_tx_id := fst (register_agent e reg a), status := ACTIVE\<rparr>
      else a)"
  by (simp add: register_agent_def Let_def split: prod.splits)

lemma delete_agent_agent:
  "snd (snd (delete_agent e reg a uid)) =
     (if truthy (fst (delete_agent e reg a uid)) then a\<lparr>status := DELETED\<rparr> else a)"
  by (simp add: delete_agent_def Let_def split: prod.splits)

lemma send_connection_request_agent:
  "snd (snd (send_connection_request e a t)) =
     (if truthy (fst (send_connection_request e a t))
      then a\<lparr>messages_sent := messages_sent a + 1,
             last_activity := Some (clock e (ticks e))\<rparr>
      else a)"
  by (simp add: send_connection_request_def Let_def submit_message_def
        increment_messages_sent_eq split: prod.splits)

lemma notify_connection_created_agent:
  "snd (snd (notify_connection_created e a f t c)) =
     (if truthy (fst (notify_connection_created e a f t c))
      then a\<lparr>messages_received := messages_received a + 1,
             last_activity := Some (clock e (ticks e)),
             active_connections := active_connections a + 1\<rparr>
      else a)"
  by (simp add: notify_connection_created_def Let_def submit_message_def
        increment_messages_received_eq split: prod.splits)

lemma send_message_agent:
  "snd (snd (send_message e a t d)) =
     (if truthy (fst (send_message e a t d))
      then a\<lparr>messages_sent := messages_sent a + 1,
             last_activity := Some (clock e (ticks e))\<rparr>
      else a)"
  by (simp add: send_message_def Let_def submit_message_def
        increment_messages_sent_eq split: prod.splits)

lemma send_transaction_request_agent:
  "snd (snd (send_transaction_request e a t s d)) =
     (if truthy (fst (send_transaction_request e a t s d))
      then a\<lparr>messages_sent := messages_sent a + 1,
             last_activity := Some (clock e (ticks e))\<rparr>
      else a)"
  by (simp add: send_transaction_request_def Let_def submit_message_def
        increment_messages_sent_eq split: prod.splits)

lemmas agent_effects =
  register_agent_agent delete_agent_agent send_connection_request_agent
  notify_connection_created_agent send_message_agent send_transaction_request_agent

subsection \<open>Results and submissions\<close>

lemma register_agent_result:
  "truthy (self_registry_topic_id reg) \<Longrightarrow>
     fst (register_agent e reg a) =
       (if mock_mode e then Some ''0.0.123456@1234567890.123456789''
        else submit_outcome e (length (submitted e)))"
  by (simp add: register_agent_def Let_def split_beta submit_message_def)

lemma register_agent_mock:
  "mock_mode e \<Longrightarrow> fst (register_agent e reg a) = Some ''0.0.123456@1234567890.123456789''"
  by (simp add: register_agent_def initialize_registry_def create_topic_def
        submit_message_def Let_def split_beta)

lemma register_agent_submitted:
  "truthy (fst (register_agent e reg a)) \<Longrightarrow>
     submitted (fst (snd (register_agent e reg a))) \<noteq> [] \<and>
     last (submitted (fst (snd (register_agent e reg a)))) =
       (self_registry_topic_id (fst (snd (snd (register_agent e reg a)))),
        get_hcs10_register_payload a, ''hcs-10:op:0:0'', fst (register_agent e reg a))"
  by (simp add: register_agent_def Let_def split_beta submit_message_def split: if_splits)

lemma delete_agent_mock:
  "mock_mode e \<Longrightarrow> truthy (self_registry_topic_id reg) \<Longrightarrow>
     fst (delete_agent e reg a uid) = Some ''0.0.123456@1234567890.123456789'' \<and>
     mock_mode (fst (snd (delete_agent e reg a uid)))"
  by (simp add: delete_agent_def submit_message_def Let_def split_beta)

lemma send_connection_request_env:
  "fst (send_connection_request e a t) =
     (if truthy (outbound_topic_id a)
      then (if mock_mode e then Some ''0.0.123456@1234567890.123456789''
            else submit_outcome e (length (submitted e)))
      else None)"
  "mock_mode (fst (snd (send_connection_request e a t))) = mock_mode e"
  by (simp_all add: send_connection_request_def submit_message_def Let_def
        increment_messages_sent_eq)

lemma send_connection_request_no_outbound:
  "\<not> truthy (outbound_topic_id a) \<Longrightarrow> send_connection_request e a t = (None, e, a)"
  by (simp add: send_connection_request_def)

lemma notify_connection_created_env:
  "fst (notify_connection_created e a f t c) =
     (if mock_mode e then Some ''0.0.123456@1234567890.123456789''
      else submit_outcome e (length (submitted e)))"
  "mock_mode (fst (snd (notify_connection_created e a f t c))) = mock_mode e"
  "results (fst (snd (notify_connection_created e a f t c))) =
     results e @ [fst (notify_connection_created e a f t c)]"
  by (simp_all add: notify_connection_created_def submit_message_def Let_def
        increment_messages_received_eq results_def)

lemma notify_connection_created_effect:
  "notify_connection_created e to_agent from_agent t c = (tx, e', to_agent') \<Longrightarrow>
     (\<exists>m. submitted e' = submitted e @ [(inbound_topic_id to_agent, m, ''hcs-10:op:4:1'', tx)] \<and>
          is_connection_created m t c (account_id from_agent)) \<and>
     to_agent' = (if truthy tx
                  then to_agent\<lparr>messages_received := messages_received to_agent + 1,
                                last_activity := Some (clock e (ticks e)),
                                active_connections := active_connections to_agent + 1\<rparr>
                  else to_agent)"
  by (auto simp: notify_connection_created_def Let_def submit_message_eq
                 increment_messages_received_eq is_connection_created_def
           split: prod.splits if_splits)

lemma create_connection_topic_mock:
  assumes "mock_mode e"
  shows "fst (create_connection_topic e reg h a b c) = Some ''0.0.999999''"
    and "results (fst (snd (create_connection_topic e reg h a b c))) =
           results e @ [Some ''0.0.123456@1234567890.123456789'',
                        Some ''0.0.123456@1234567890.123456789'']"
  using assms
  by (simp_all add: create_connection_topic_def Let_def split_beta create_topic_result
        create_topic_env notify_connection_created_env results_create_topic)

lemma send_transaction_request_effect:
  "send_transaction_request e from_agent topic schedule_id data = (tx_id, e', from_agent') \<Longrightarrow>
     (\<exists>m. submitted e' = submitted e @ [(Some topic, m, ''hcs-10:op:7:3'', tx_id)] \<and>
          map_of m ''op'' = Some (JStr ''transaction'') \<and>
          map_of m ''schedule_id'' = Some (JStr schedule_id)) \<and>
     from_agent' = (if truthy tx_id
                    then from_agent\<lparr>messages_sent := messages_sent from_agent + 1,
                                     last_activity := Some (clock e (ticks e))\<rparr>
                    else from_agent)"
  by (auto simp: send_transaction_request_def Let_def submit_message_eq
                 increment_messages_sent_eq
           split: prod.splits if_splits)

section \<open>Effects of the registration endpoint\<close>

lemma row_id_le_foldr_max: "a \<in> set db \<Longrightarrow> row_id a \<le> foldr max (map row_id db) 0"
  by (induction db) auto

lemma row_id_less_next_id: "a \<in> set db \<Longrightarrow> row_id a < next_id db"
  using row_id_le_foldr_max [of a db] by (simp add: next_id_def)

lemma db_commit_new_row:
  assumes "row_id a' = next_id db" and "row_id a = next_id db"
  shows "db_commit (db @ [a]) a' = db @ [a']"
proof -
  have "map (\<lambda>r. if row_id r = row_id a' then a' else r) db = db"
    using assms(1) row_id_less_next_id by (intro map_idI) fastforce
  then show ?thesis using assms by (simp add: db_commit_def)
qed

lemma scalar_one_or_none_None: "scalar_one_or_none rows = Inr None \<longleftrightarrow> rows = []"
  by (cases rows rule: scalar_one_or_none.cases) simp_all

lemma no_rows: "select_by_account_id [] acc = []"
  by (simp add: select_by_account_id_def)

lemma singleton_row:
  "map account_id db = [acc] \<Longrightarrow> select_by_account_id db acc = db \<and> (\<exists>a. db = [a])"
  by (cases db) (auto simp: select_by_account_id_def)

text \<open>The endpoint on a table that has no row with the requested account id.\<close>

lemma register_agent_endpoint_new:
  assumes "select_by_account_id db (req_account_id request) = []"
  shows "register_agent_endpoint e reg db request =
    (let agent = new_agent db (clock e (ticks e)) request;
         e0 = e\<lparr>ticks := Suc (ticks e)\<rparr>;
         topics = create_agent_topics e0 agent;
         registered = register_agent (fst (snd topics)) reg (snd (snd topics));
         tx = fst registered;
         agent3 = (if truthy tx
                   then agent\<lparr>inbound_topic_id := inbound_topic_id (snd (snd topics)),
                              outbound_topic_id := outbound_topic_id (snd (snd topics)),
                              registration_tx_id := tx, status := ACTIVE\<rparr>
                   else snd (snd topics))
     in (Inr \<lparr> resp_agent_id = next_id db,
               resp_account_id = req_account_id request,
               resp_registration_tx_id = tx,
               resp_inbound_topic_id = inbound_topic_id (snd (snd topics)),
               resp_outbound_topic_id = outbound_topic_id (snd (snd topics)) \<rparr>,
         fst (snd registered), fst (snd (snd registered)),
         if truthy tx then db @ [agent3] else db @ [agent]))"
proof -
  let ?agent = "new_agent db (clock e (ticks e)) request"
  let ?e0 = "e\<lparr>ticks := Suc (ticks e)\<rparr>"
  let ?topics = "create_agent_topics ?e0 ?agent"
  let ?agent1 = "snd (snd ?topics)"
  let ?registered = "register_agent (fst (snd ?topics)) reg ?agent1"
  let ?tx = "fst ?registered"
  have ids: "row_id ?agent = next_id db" "account_id ?agent = req_account_id request"
    by (simp_all add: new_agent_def)
  have a1: "?agent1 = ?agent\<lparr>inbound_topic_id := inbound_topic_id ?agent1,
                              outbound_topic_id := outbound_topic_id ?agent1\<rparr>"
    by (rule create_agent_topics_agent)
  have a2: "snd (snd (snd ?registered)) =
              (if truthy ?tx then ?agent1\<lparr>registration_tx_id := ?tx, status := ACTIVE\<rparr>
               else ?agent1)"
    by (rule register_agent_agent)
  have a3: "truthy ?tx \<Longrightarrow>
              ?agent1\<lparr>registration_tx_id := ?tx, status := ACTIVE\<rparr> =
              ?agent\<lparr>inbound_topic_id := inbound_topic_id ?agent1,
                      outbound_topic_id := outbound_topic_id ?agent1,
                      registration_tx_id := ?tx, status := ACTIVE\<rparr>"
    by (subst a1) simp
  have commit: "truthy ?tx \<Longrightarrow>
     db_commit (db @ [?agent]) (?agent1\<lparr>registration_tx_id := ?tx, status := ACTIVE\<rparr>) =
       db @ [?agent1\<lparr>registration_tx_id := ?tx, status := ACTIVE\<rparr>]"
    by (rule db_commit_new_row) (simp_all add: create_agent_topics_keeps ids)
  show ?thesis
    using assms
    apply (simp add: register_agent_endpoint_def utcnow_def Let_def split_beta)
    apply (simp add: a2 commit create_agent_topics_keeps ids)
    apply (simp add: a3 [symmetric])
    done
qed

lemma register_agent_endpoint_existing:
  "select_by_account_id db (req_account_id request) = [a] \<Longrightarrow>
     register_agent_endpoint e reg db request = (Inl HTTP_409_CONFLICT, e, reg, db)"
  by (simp add: register_agent_endpoint_def)

lemma register_agent_endpoint_Inr:
  assumes "register_agent_endpoint e reg db request = (Inr resp, e', reg', db')"
  shows "select_by_account_id db (req_account_id request) = []"
proof (cases "scalar_one_or_none (select_by_account_id db (req_account_id request))")
  case (Inl u)
  with assms show ?thesis by (simp add: register_agent_endpoint_def)
next
  case (Inr r)
  with assms show ?thesis
    by (cases r) (simp_all add: register_agent_endpoint_def scalar_one_or_none_None)
qed

subsection \<open>The three example registrations\<close>

lemma first_registration_result:
  "fst first_registration =
     Inr \<lparr> resp_agent_id = 1, resp_account_id = ''0.0.100'',
           resp_registration_tx_id = Some ''0.0.123456@1234567890.123456789'',
           resp_inbound_topic_id = Some ''0.0.999999'',
           resp_outbound_topic_id = Some ''0.0.999999'' \<rparr>"
  "map account_id (snd (snd (snd first_registration))) = [''0.0.100'']"
  "map status (snd (snd (snd first_registration))) = [ACTIVE]"
  unfolding first_registration_def register_agent_endpoint_new [OF no_rows]
  by (simp_all add: Let_def register_agent_result registry_0_ready create_agent_topics_env
        create_agent_topics_ids mock_env_fields mock_env_def next_id_def request_A_def
        new_agent_def)

lemma topicless_registration_result:
  "map status (snd (snd (snd topicless_registration))) = [ACTIVE]"
  "map account_id (snd (snd (snd topicless_registration))) = [''0.0.100'']"
  "map inbound_topic_id (snd (snd (snd topicless_registration))) = [None]"
  "map outbound_topic_id (snd (snd (snd topicless_registration))) = [None]"
  "fst topicless_registration =
     Inr \<lparr> resp_agent_id = 1, resp_account_id = ''0.0.100'',
           resp_registration_tx_id = Some ''0.0.2@1.1'',
           resp_inbound_topic_id = None, resp_outbound_topic_id = None \<rparr>"
  unfolding topicless_registration_def register_agent_endpoint_new [OF no_rows]
  by (simp_all add: Let_def register_agent_result registry_0_ready create_agent_topics_env
        create_agent_topics_ids topicless_env_def next_id_def request_A_def new_agent_def)

lemma failing_registration_result:
  "fst failing_registration =
     Inr \<lparr> resp_agent_id = 1, resp_account_id = ''0.0.100'',
           resp_registration_tx_id = None,
           resp_inbound_topic_id = None, resp_outbound_topic_id = None \<rparr>"
  unfolding failing_registration_def register_agent_endpoint_new [OF no_rows]
  by (simp_all add: Let_def register_agent_result registry_0_ready create_agent_topics_env
        create_agent_topics_ids failing_env_def next_id_def request_A_def new_agent_def)

section \<open>Effects of a sequence of operations\<close>

lemma agent_of_perform:
  "agent_of (perform (e, reg, a) Register) = snd (snd (snd (register_agent e reg a)))"
  "agent_of (perform (e, reg, a) (Delete uid)) = snd (snd (delete_agent e reg a uid))"
  "agent_of (perform (e, reg, a) CreateTopics) = snd (snd (create_agent_topics e a))"
  "agent_of (perform (e, reg, a) (ConnectionRequest t)) =
     snd (snd (send_connection_request e a t))"
  "agent_of (perform (e, reg, a) (ConnectionCreated f t c)) =
     snd (snd (notify_connection_created e a f t c))"
  "agent_of (perform (e, reg, a) (Message t d)) = snd (snd (send_message e a t d))"
  "agent_of (perform (e, reg, a) (Transaction t s d)) =
     snd (snd (send_transaction_request e a t s d))"
  by (simp_all add: agent_of_def split: prod.splits)

lemma perform_max_connections:
  "max_connections (agent_of (perform s op)) = max_connections (agent_of s)"
proof -
  obtain e reg a where s: "s = (e, reg, a)" by (cases s) auto
  have a: "agent_of (e, reg, a) = a" by (simp add: agent_of_def)
  show ?thesis unfolding s a
  proof (cases op)
    case CreateTopics
    then show "max_connections (agent_of (perform (e, reg, a) op)) = max_connections a"
      by (simp only: agent_of_perform) (subst create_agent_topics_agent, simp)
  qed (simp_all only: agent_of_perform agent_effects, simp_all)
qed

lemma perform_active_connections:
  "active_connections (agent_of (perform s op)) =
     active_connections (agent_of s) + int (notified s op)"
proof -
  obtain e reg a where s: "s = (e, reg, a)" by (cases s) auto
  have a: "agent_of (e, reg, a) = a" by (simp add: agent_of_def)
  show ?thesis unfolding s a
  proof (cases op)
    case CreateTopics
    then show "active_connections (agent_of (perform (e, reg, a) op)) =
                 active_connections a + int (notified (e, reg, a) op)"
      by (simp only: agent_of_perform) (subst create_agent_topics_agent, simp)
  qed (simp_all only: agent_of_perform agent_effects notified.simps, simp_all)
qed

lemma perform_keeps_deleted:
  "op \<noteq> Register \<Longrightarrow> status (agent_of s) = DELETED \<Longrightarrow>
     status (agent_of (perform s op)) = DELETED"
proof -
  assume op: "op \<noteq> Register" and d: "status (agent_of s) = DELETED"
  obtain e reg a where s: "s = (e, reg, a)" by (cases s) auto
  have a: "agent_of (e, reg, a) = a" by (simp add: agent_of_def)
  from d have d': "status a = DELETED" by (simp add: s a)
  show ?thesis unfolding s
  proof (cases op)
    case Register
    with op show "status (agent_of (perform (e, reg, a) op)) = DELETED" by simp
  next
    case CreateTopics
    then show "status (agent_of (perform (e, reg, a) op)) = DELETED"
      by (simp only: agent_of_perform) (subst create_agent_topics_agent, simp add: d')
  qed (simp_all only: agent_of_perform agent_effects, simp_all add: d')
qed

lemma run_Cons: "run s (op # ops) = run (perform s op) ops"
  by (simp add: run_def)

lemma run_Nil: "run s [] = s"
  by (simp add: run_def)

lemma run_connections:
  "max_connections (agent_of (run s ops)) = max_connections (agent_of s) \<and>
   active_connections (agent_of (run s ops)) =
     active_connections (agent_of s) + int (notifications s ops)"
proof (induction ops arbitrary: s)
  case Nil
  show ?case by (simp add: run_Nil)
next
  case (Cons op ops)
  show ?case
    by (simp add: run_Cons Cons.IH perform_max_connections perform_active_connections)
qed

lemma run_keeps_deleted:
  "status (agent_of s) = DELETED \<Longrightarrow> Register \<notin> set ops \<Longrightarrow>
     status (agent_of (run s ops)) = DELETED"
proof (induction ops arbitrary: s)
  case Nil
  then show ?case by (simp add: run_Nil)
next
  case (Cons op ops)
  from Cons.prems have "op \<noteq> Register" "Register \<notin> set ops" by auto
  with Cons.prems(1) have "status (agent_of (perform s op)) = DELETED"
    by (simp add: perform_keeps_deleted)
  with Cons.IH \<open>Register \<notin> set ops\<close> show ?case by (simp add: run_Cons)
qed

lemma notifications_twice:
  "notifications state_A [ConnectionCreated agent_B ''0.0.300'' 1,
                          ConnectionCreated agent_B ''0.0.301'' 2] = 2"
  by (simp add: state_A_def notify_connection_created_env mock_env_fields split_beta)

lemma after_delete:
  "status (agent_of (run state_A [Delete ''0.0.100''])) = DELETED"
  "mock_mode (fst (run state_A [Delete ''0.0.100'']))"
  by (simp_all add: run_def state_A_def agent_of_def split_beta delete_agent_agent
        delete_agent_mock mock_env_fields registry_0_def)

section \<open>Directory: registration\<close>

text \<open>
  Claim C1, as amended. When a call of the registration endpoint succeeds, a second call
  for the same account id (whatever else the request says) is rejected with 409 Conflict:
  it creates no record and no topic and submits nothing, so the environment, the registry
  and the table stay as the first call left them, and the table holds exactly one record
  with that account id. The second call does not return the first call's result.
\<close>

theorem second_registration_conflicts:
  assumes "register_agent_endpoint e reg db request = (Inr resp, e', reg', db')"
    and "req_account_id request2 = req_account_id request"
  shows "register_agent_endpoint e' reg' db' request2 = (Inl HTTP_409_CONFLICT, e', reg', db') \<and>
         length (select_by_account_id db' (req_account_id request)) = 1"
proof -
  have new: "select_by_account_id db (req_account_id request) = []"
    using assms(1) by (rule register_agent_endpoint_Inr)
  from assms(1) have "\<exists>agent. db' = db @ [agent] \<and> account_id agent = req_account_id request"
    unfolding register_agent_endpoint_new [OF new]
    by (auto simp: Let_def new_agent_def create_agent_topics_keeps split: if_splits)
  then obtain agent where "db' = db @ [agent]" "account_id agent = req_account_id request"
    by blast
  with new have sel: "select_by_account_id db' (req_account_id request) = [agent]"
    by (simp add: select_by_account_id_def)
  with assms(2) show ?thesis
    by (simp add: register_agent_endpoint_existing)
qed

theorem second_registration_conflicts_witness:
  "register_agent_endpoint (fst (snd first_registration)) (fst (snd (snd first_registration)))
       (snd (snd (snd first_registration))) request_A =
     (Inl HTTP_409_CONFLICT, fst (snd first_registration), fst (snd (snd first_registration)),
      snd (snd (snd first_registration))) \<and>
   length (select_by_account_id (snd (snd (snd first_registration))) ''0.0.100'') = 1"
proof -
  let ?resp = "\<lparr> resp_agent_id = 1, resp_account_id = ''0.0.100'',
           resp_registration_tx_id = Some ''0.0.123456@1234567890.123456789'',
           resp_inbound_topic_id = Some ''0.0.999999'',
           resp_outbound_topic_id = Some ''0.0.999999'' \<rparr>"
  have "register_agent_endpoint mock_env registry_0 [] request_A =
          (Inr ?resp, fst (snd first_registration), fst (snd (snd first_registration)),
           snd (snd (snd first_registration)))"
    using first_registration_result(1)
    by (simp add: first_registration_def [symmetric] prod_eq_iff)
  from second_registration_conflicts [OF this, of request_A]
  show ?thesis by (simp add: request_A_def)
qed

text \<open>
  Claim C1 as stated fails: with the mock client, registering account 0.0.100 on an empty
  table succeeds with topic ids, and registering it again in the state just reached
  answers 409 Conflict instead of that result.
\<close>

theorem second_registration_is_an_error:
  "fst first_registration =
     Inr \<lparr> resp_agent_id = 1, resp_account_id = ''0.0.100'',
           resp_registration_tx_id = Some ''0.0.123456@1234567890.123456789'',
           resp_inbound_topic_id = Some ''0.0.999999'',
           resp_outbound_topic_id = Some ''0.0.999999'' \<rparr> \<and>
   fst (register_agent_endpoint (fst (snd first_registration))
          (fst (snd (snd first_registration))) (snd (snd (snd first_registration))) request_A) =
     Inl HTTP_409_CONFLICT"
proof -
  from singleton_row [OF first_registration_result(2)]
  obtain a where "select_by_account_id (snd (snd (snd first_registration)))
                    (req_account_id request_A) = [a]"
    by (auto simp: request_A_def)
  then show ?thesis
    using first_registration_result(1)
    by (simp add: register_agent_endpoint_existing)
qed

section \<open>Capacity\<close>

text \<open>
  Claim C2, as amended. No operation compares \<open>active_connections\<close> with
  \<open>max_connections\<close>. Along every sequence of registry operations on an agent record,
  \<open>max_connections\<close> keeps its value and \<open>active_connections\<close> is its initial value plus
  the number of connection-created notifications whose submission returned a transaction
  id. Whether a notification returns a transaction id is decided by the client alone, and
  a notification that does increments \<open>active_connections\<close> by exactly 1 (with
  \<open>messages_received\<close> and \<open>last_activity\<close>), while one that does not leaves the record
  unchanged.
\<close>

theorem connections_follow_notifications:
  "max_connections (agent_of (run s ops)) = max_connections (agent_of s) \<and>
   active_connections (agent_of (run s ops)) =
     active_connections (agent_of s) + int (notifications s ops) \<and>
   fst (notify_connection_created e a f t c) =
     (if mock_mode e then Some ''0.0.123456@1234567890.123456789''
      else submit_outcome e (length (submitted e))) \<and>
   snd (snd (notify_connection_created e a f t c)) =
     (if truthy (fst (notify_connection_created e a f t c))
      then a\<lparr>messages_received := messages_received a + 1,
             last_activity := Some (clock e (ticks e)),
             active_connections := active_connections a + 1\<rparr>
      else a)"
  using run_connections [of s ops] notify_connection_created_env(1) [of e a f t c]
    notify_connection_created_agent [of e a f t c]
  by blast

theorem connections_follow_notifications_witness:
  "max_connections (agent_of (run state_A
      [ConnectionCreated agent_B ''0.0.300'' 1, ConnectionCreated agent_B ''0.0.301'' 2])) = 1 \<and>
   active_connections (agent_of (run state_A
      [ConnectionCreated agent_B ''0.0.300'' 1, ConnectionCreated agent_B ''0.0.301'' 2])) = 2"
  using connections_follow_notifications [of state_A
      "[ConnectionCreated agent_B ''0.0.300'' 1, ConnectionCreated agent_B ''0.0.301'' 2]"]
  by (simp only: notifications_twice state_A_fields agent_A_fields) simp

text \<open>
  Claim C2 as stated fails: agent A starts with no connection and \<open>max_connections = 1\<close>;
  after two successful notifications its \<open>active_connections\<close> exceeds
  \<open>max_connections\<close>.
\<close>

theorem capacity_not_enforced:
  "active_connections (agent_of state_A) \<le> max_connections (agent_of state_A) \<and>
   \<not> active_connections (agent_of (run state_A
        [ConnectionCreated agent_B ''0.0.300'' 1, ConnectionCreated agent_B ''0.0.301'' 2]))
     \<le> max_connections (agent_of (run state_A
        [ConnectionCreated agent_B ''0.0.300'' 1, ConnectionCreated agent_B ''0.0.301'' 2]))"
  by (simp only: run_connections notifications_twice state_A_fields agent_A_fields) simp

section \<open>Directory: when a record becomes Active\<close>

text \<open>
  Claim C3, as amended. Every registration through the endpoint that is not rejected
  appends one record for the account to the table. That record is Active exactly when the
  submission of the Register envelope to the registry topic returned a transaction id,
  whether or not the inbound and outbound topics were created; it then carries the topic
  ids that were created (none, one or both) and the transaction id. Otherwise the record
  stays as inserted: Inactive, without topic ids.
\<close>

theorem registration_active_iff_appended:
  assumes "register_agent_endpoint e reg db request = (Inr resp, e', reg', db')"
  shows "\<exists>agent. db' = db @ [agent] \<and>
           account_id agent = req_account_id request \<and>
           status agent = (if truthy (resp_registration_tx_id resp) then ACTIVE else INACTIVE) \<and>
           (if truthy (resp_registration_tx_id resp)
            then inbound_topic_id agent = resp_inbound_topic_id resp \<and>
                 outbound_topic_id agent = resp_outbound_topic_id resp \<and>
                 registration_tx_id agent = resp_registration_tx_id resp \<and>
                 submitted e' \<noteq> [] \<and>
                 last (submitted e') =
                   (self_registry_topic_id reg',
                    get_hcs10_register_payload
                      ((new_agent db (clock e (ticks e)) request)
                         \<lparr>inbound_topic_id := resp_inbound_topic_id resp,
                          outbound_topic_id := resp_outbound_topic_id resp\<rparr>),
                    ''hcs-10:op:0:0'', resp_registration_tx_id resp)
            else agent = new_agent db (clock e (ticks e)) request)"
proof -
  let ?agent = "new_agent db (clock e (ticks e)) request"
  let ?topics = "create_agent_topics (e\<lparr>ticks := Suc (ticks e)\<rparr>) ?agent"
  let ?agent1 = "snd (snd ?topics)"
  let ?registered = "register_agent (fst (snd ?topics)) reg ?agent1"
  let ?tx = "fst ?registered"
  have new: "select_by_account_id db (req_account_id request) = []"
    using assms by (rule register_agent_endpoint_Inr)
  have a1: "?agent1 = ?agent\<lparr>inbound_topic_id := inbound_topic_id ?agent1,
                              outbound_topic_id := outbound_topic_id ?agent1\<rparr>"
    by (rule create_agent_topics_agent)
  from assms have res:
    "resp_registration_tx_id resp = ?tx"
    "resp_inbound_topic_id resp = inbound_topic_id ?agent1"
    "resp_outbound_topic_id resp = outbound_topic_id ?agent1"
    "e' = fst (snd ?registered)" "reg' = fst (snd (snd ?registered))"
    "db' = (if truthy ?tx
            then db @ [?agent\<lparr>inbound_topic_id := inbound_topic_id ?agent1,
                              outbound_topic_id := outbound_topic_id ?agent1,
                              registration_tx_id := ?tx, status := ACTIVE\<rparr>]
            else db @ [?agent])"
    unfolding register_agent_endpoint_new [OF new] by (auto simp: Let_def)
  have acc: "account_id ?agent = req_account_id request" "status ?agent = INACTIVE"
    by (simp_all add: new_agent_def)
  show ?thesis
  proof (cases "truthy ?tx")
    case True
    from register_agent_submitted [OF True] a1
    have "submitted e' \<noteq> [] \<and> last (submitted e') =
            (self_registry_topic_id reg',
             get_hcs10_register_payload
               (?agent\<lparr>inbound_topic_id := resp_inbound_topic_id resp,
                        outbound_topic_id := resp_outbound_topic_id resp\<rparr>),
             ''hcs-10:op:0:0'', resp_registration_tx_id resp)"
      by (simp add: res(1-5))
    with True show ?thesis by (simp add: res acc)
  next
    case False
    then show ?thesis by (simp add: res acc)
  qed
qed

theorem registration_active_iff_appended_witness:
  "(\<exists>agent. snd (snd (snd topicless_registration)) = [agent] \<and>
       account_id agent = ''0.0.100'' \<and> status agent = ACTIVE \<and>
       inbound_topic_id agent = None \<and> outbound_topic_id agent = None \<and>
       registration_tx_id agent = Some ''0.0.2@1.1'') \<and>
   (\<exists>agent. snd (snd (snd failing_registration)) = [agent] \<and>
       account_id agent = ''0.0.100'' \<and> status agent = INACTIVE)"
proof -
  let ?r1 = "\<lparr> resp_agent_id = 1, resp_account_id = ''0.0.100'',
           resp_registration_tx_id = Some ''0.0.2@1.1'',
           resp_inbound_topic_id = None, resp_outbound_topic_id = None \<rparr>"
  let ?r2 = "\<lparr> resp_agent_id = 1, resp_account_id = ''0.0.100'',
           resp_registration_tx_id = None,
           resp_inbound_topic_id = None, resp_outbound_topic_id = None \<rparr>"
  have "register_agent_endpoint topicless_env registry_0 [] request_A =
          (Inr ?r1, fst (snd topicless_registration), fst (snd (snd topicless_registration)),
           snd (snd (snd topicless_registration)))"
    using topicless_registration_result(5)
    by (simp add: topicless_registration_def [symmetric] prod_eq_iff)
  from registration_active_iff_appended [OF this]
  have 1: "\<exists>agent. snd (snd (snd topicless_registration)) = [agent] \<and>
       account_id agent = ''0.0.100'' \<and> status agent = ACTIVE \<and>
       inbound_topic_id agent = None \<and> outbound_topic_id agent = None \<and>
       registration_tx_id agent = Some ''0.0.2@1.1''"
    by (auto simp: request_A_def)
  have "register_agent_endpoint failing_env registry_0 [] request_A =
          (Inr ?r2, fst (snd failing_registration), fst (snd (snd failing_registration)),
           snd (snd (snd failing_registration)))"
    using failing_registration_result
    by (simp add: failing_registration_def [symmetric] prod_eq_iff)
  from registration_active_iff_appended [OF this]
  have 2: "\<exists>agent. snd (snd (snd failing_registration)) = [agent] \<and>
       account_id agent = ''0.0.100'' \<and> status agent = INACTIVE"
    by (auto simp: request_A_def new_agent_def)
  from 1 2 show ?thesis by blast
qed

text \<open>
  Claim C3 as stated fails: when both topic creations fail and the submission to the
  registry topic succeeds, the registration leaves an Active record with neither an
  inbound nor an outbound topic id.
\<close>

theorem active_without_topics:
  "map status (snd (snd (snd (register_agent_endpoint topicless_env registry_0 [] request_A))))
     = [ACTIVE] \<and>
   map inbound_topic_id
     (snd (snd (snd (register_agent_endpoint topicless_env registry_0 [] request_A)))) = [None] \<and>
   map outbound_topic_id
     (snd (snd (snd (register_agent_endpoint topicless_env registry_0 [] request_A)))) = [None]"
  using topicless_registration_result by (simp add: topicless_registration_def)

section \<open>ConnectionProtocol: the handshake\<close>

text \<open>
  Claim C5. Let A and B be two distinct agent records. If A's connection request to B's
  inbound topic is sent successfully, the connection topic is then created, and both
  connection-created submissions return a transaction id, then \<open>active_connections\<close> of A
  and of B have each grown by exactly 1, and the two submissions made are connection-created
  envelopes, one to A's inbound topic naming B and one to B's inbound topic naming A, that
  carry the same connection topic id and the same connection id.
\<close>

theorem handshake_counts:
  assumes distinct: "agent_a \<noteq> agent_b"
    and target: "inbound_topic_id (h agent_b) = Some to_topic"
    and req: "send_connection_request e (h agent_a) to_topic = (tx_req, e1, a1)"
    and req_ok: "truthy tx_req"
    and conn: "create_connection_topic e1 reg (h(agent_a := a1)) agent_a agent_b connection_id
                 = (Some topic, e2, h2)"
    and topic_ok: "topic \<noteq> []"
    and notified_ok: "list_all truthy (appended_since e1 e2)"
  shows "active_connections (h2 agent_a) = active_connections (h agent_a) + 1 \<and>
         active_connections (h2 agent_b) = active_connections (h agent_b) + 1 \<and>
         (\<exists>m_a m_b r_a r_b.
            submitted e2 = submitted e1 @
              [(inbound_topic_id (h agent_a), m_a, ''hcs-10:op:4:1'', r_a),
               (inbound_topic_id (h agent_b), m_b, ''hcs-10:op:4:1'', r_b)] \<and>
            is_connection_created m_a topic connection_id (account_id (h agent_b)) \<and>
            is_connection_created m_b topic connection_id (account_id (h agent_a)))"
proof -
  let ?h0 = "h(agent_a := a1)"
  let ?memo = "''hcs-10:1:'' @ str_int (self_ttl reg) @ '':2:'' @
                 str_opt (inbound_topic_id (?h0 agent_a)) @ '':'' @ str_int connection_id"
  from req have a1: "a1 = (if truthy tx_req
      then (h agent_a)\<lparr>messages_sent := messages_sent (h agent_a) + 1,
                       last_activity := Some (clock e (ticks e))\<rparr>
      else h agent_a)"
    using send_connection_request_agent [of e "h agent_a" to_topic] by simp
  obtain ct e1' where ct: "create_topic e1 ?memo True = (ct, e1')"
    by (cases "create_topic e1 ?memo True") blast
  then have sub1: "submitted e1' = submitted e1" by (auto simp: create_topic_eq)
  obtain tx_a e2a a' where na:
    "notify_connection_created e1' (?h0 agent_a) (?h0 agent_b) topic connection_id = (tx_a, e2a, a')"
    by (cases "notify_connection_created e1' (?h0 agent_a) (?h0 agent_b) topic connection_id") blast
  let ?h1 = "?h0(agent_a := a')"
  obtain tx_b e3 b' where nb:
    "notify_connection_created e2a (?h1 agent_b) (?h1 agent_a) topic connection_id = (tx_b, e3, b')"
    by (cases "notify_connection_created e2a (?h1 agent_b) (?h1 agent_a) topic connection_id") blast
  have "create_connection_topic e1 reg ?h0 agent_a agent_b connection_id =
          (case ct of None \<Rightarrow> (ct, e1', ?h0)
           | Some t \<Rightarrow> if t = [] then (ct, e1', ?h0)
               else (let (tx_a, e2, a') =
                           notify_connection_created e1' (?h0 agent_a) (?h0 agent_b) t connection_id;
                         h1 = ?h0(agent_a := a');
                         (tx_b, e3, b') =
                           notify_connection_created e2 (h1 agent_b) (h1 agent_a) t connection_id;
                         h2 = h1(agent_b := b')
                     in (ct, e3, h2)))"
    using ct by (simp add: create_connection_topic_def Let_def)
  note unfolded = this
  have ct_eq: "ct = Some topic"
    using conn unfolded by (cases ct) (auto split: if_splits prod.splits simp: Let_def)
  have "create_connection_topic e1 reg ?h0 agent_a agent_b connection_id =
          (ct, e3, ?h1(agent_b := b'))"
    unfolding unfolded using na nb topic_ok by (simp add: ct_eq Let_def)
  with conn have res: "ct = Some topic" "e2 = e3" "h2 = ?h1(agent_b := b')"
    by simp_all
  from notify_connection_created_effect [OF na] obtain m_a where
    ma: "submitted e2a = submitted e1' @
           [(inbound_topic_id (?h0 agent_a), m_a, ''hcs-10:op:4:1'', tx_a)]"
        "is_connection_created m_a topic connection_id (account_id (?h0 agent_b))"
    and a': "a' = (if truthy tx_a
                   then (?h0 agent_a)\<lparr>messages_received := messages_received (?h0 agent_a) + 1,
                          last_activity := Some (clock e1' (ticks e1')),
                          active_connections := active_connections (?h0 agent_a) + 1\<rparr>
                   else ?h0 agent_a)"
    by blast
  from notify_connection_created_effect [OF nb] obtain m_b where
    mb: "submitted e3 = submitted e2a @
           [(inbound_topic_id (?h1 agent_b), m_b, ''hcs-10:op:4:1'', tx_b)]"
        "is_connection_created m_b topic connection_id (account_id (?h1 agent_a))"
    and b': "b' = (if truthy tx_b
                   then (?h1 agent_b)\<lparr>messages_received := messages_received (?h1 agent_b) + 1,
                          last_activity := Some (clock e2a (ticks e2a)),
                          active_connections := active_connections (?h1 agent_b) + 1\<rparr>
                   else ?h1 agent_b)"
    by blast
  have log: "submitted e2 = submitted e1 @
               [(inbound_topic_id (?h0 agent_a), m_a, ''hcs-10:op:4:1'', tx_a),
                (inbound_topic_id (?h1 agent_b), m_b, ''hcs-10:op:4:1'', tx_b)]"
    by (simp add: res ma mb sub1)
  with notified_ok have ok: "truthy tx_a" "truthy tx_b"
    by (simp_all add: appended_since_def results_def)
  have hb: "?h1 agent_b = h agent_b" "?h0 agent_b = h agent_b"
    using distinct by simp_all
  have in_a: "inbound_topic_id (?h0 agent_a) = inbound_topic_id (h agent_a)"
    and act_a: "active_connections (?h0 agent_a) = active_connections (h agent_a)"
    and acc_a: "account_id (?h1 agent_a) = account_id (h agent_a)"
    using a1 a' req_ok ok by simp_all
  have "active_connections (h2 agent_a) = active_connections (h agent_a) + 1"
    using distinct res a' ok act_a by simp
  moreover have "active_connections (h2 agent_b) = active_connections (h agent_b) + 1"
    using res b' ok hb by simp
  moreover have "submitted e2 = submitted e1 @
              [(inbound_topic_id (h agent_a), m_a, ''hcs-10:op:4:1'', tx_a),
               (inbound_topic_id (h agent_b), m_b, ''hcs-10:op:4:1'', tx_b)]"
    using log in_a hb by simp
  moreover have "is_connection_created m_a topic connection_id (account_id (h agent_b))"
    using ma(2) hb by simp
  moreover have "is_connection_created m_b topic connection_id (account_id (h agent_a))"
    using mb(2) acc_a by simp
  ultimately show ?thesis by blast
qed

theorem handshake_counts_witness:
  "active_connections (handshake_heap 0) = 0 \<and> active_connections (handshake_heap 1) = 0 \<and>
   active_connections (snd (snd (create_connection_topic
       (fst (snd (send_connection_request mock_env (handshake_heap 0) ''0.0.201'')))
       registry_0
       (handshake_heap(0 := snd (snd (send_connection_request mock_env (handshake_heap 0) ''0.0.201''))))
       0 1 1)) 0) = 1 \<and>
   active_connections (snd (snd (create_connection_topic
       (fst (snd (send_connection_request mock_env (handshake_heap 0) ''0.0.201'')))
       registry_0
       (handshake_heap(0 := snd (snd (send_connection_request mock_env (handshake_heap 0) ''0.0.201''))))
       0 1 1)) 1) = 1"
proof -
  let ?q = "send_connection_request mock_env (handshake_heap 0) ''0.0.201''"
  let ?e1 = "fst (snd ?q)"
  let ?a1 = "snd (snd ?q)"
  let ?c = "create_connection_topic ?e1 registry_0 (handshake_heap(0 := ?a1)) 0 1 1"
  have h: "handshake_heap 0 = agent_A" "handshake_heap 1 = agent_B"
    by (simp_all add: handshake_heap_def)
  have q: "truthy (fst ?q)"
    by (simp add: h send_connection_request_env agent_A_fields mock_env_fields)
  have e1: "mock_mode ?e1"
    by (simp add: send_connection_request_env mock_env_fields)
  have c1: "fst ?c = Some ''0.0.999999''"
    using e1 by (rule create_connection_topic_mock)
  have "results (fst (snd ?c)) = results ?e1 @ [Some ''0.0.123456@1234567890.123456789'',
                        Some ''0.0.123456@1234567890.123456789'']"
    using e1 by (rule create_connection_topic_mock)
  then have c2: "list_all truthy (appended_since ?e1 (fst (snd ?c)))"
    by (simp add: appended_since_def length_results [symmetric])
  have "(0::nat) \<noteq> 1" by simp
  moreover have "inbound_topic_id (handshake_heap 1) = Some ''0.0.201''"
    by (simp only: h agent_B_fields)
  moreover have "?q = (fst ?q, ?e1, ?a1)" by simp
  moreover note q
  moreover have "?c = (Some ''0.0.999999'', fst (snd ?c), snd (snd ?c))"
    using c1 by (simp add: prod_eq_iff)
  moreover have "''0.0.999999'' \<noteq> []" by simp
  ultimately have "active_connections (snd (snd ?c) 0) = active_connections (handshake_heap 0) + 1 \<and>
         active_connections (snd (snd ?c) 1) = active_connections (handshake_heap 1) + 1"
    using handshake_counts [of 0 1 handshake_heap "''0.0.201''" mock_env "fst ?q" ?e1 ?a1
        registry_0 1 "''0.0.999999''" "fst (snd ?c)" "snd (snd ?c)"] c2
    by blast
  then show ?thesis by (simp only: h agent_A_fields agent_B_fields) simp
qed

text \<open>
  The distinctness of the two objects matters: with one and the same object passed as both
  participants, both notifications are counted on it.
\<close>

lemma handshake_same_object:
  "active_connections (handshake_heap 0) = 0 \<and>
   active_connections
     (snd (snd (create_connection_topic mock_env registry_0 handshake_heap 0 0 1)) 0) = 2"
  by (simp add: create_connection_topic_def Let_def split_beta create_topic_result
        create_topic_env notify_connection_created_env notify_connection_created_agent
        mock_env_fields handshake_heap_def agent_A_fields)

section \<open>MessageRouter: sending a message\<close>

text \<open>
  Claim C6. Every call of \<^verbatim>\<open>send_message\<close> submits one Message envelope with the given
  data to the connection topic. When the submission returns a transaction id, the sender's
  \<open>messages_sent\<close> grows by exactly 1 and its \<open>last_activity\<close> becomes the current
  clock reading, and nothing else in the record changes; when the submission fails, the
  record is returned unchanged.
\<close>

theorem send_message_counter:
  "send_message e from_agent topic data = (tx_id, e', from_agent') \<Longrightarrow>
     (\<exists>m. submitted e' = submitted e @ [(Some topic, m, ''hcs-10:op:6:3'', tx_id)] \<and>
          map_of m ''op'' = Some (JStr ''message'') \<and>
          map_of m ''data'' = Some (JStr data)) \<and>
     (if truthy tx_id
      then from_agent' = from_agent\<lparr>messages_sent := messages_sent from_agent + 1,
                                    last_activity := Some (clock e (ticks e))\<rparr>
      else from_agent' = from_agent)"
  by (auto simp: send_message_def Let_def submit_message_eq increment_messages_sent_eq
           split: prod.splits if_splits)

theorem send_message_counter_witness:
  "truthy (fst (send_message mock_env agent_A ''0.0.300'' ''hello'')) \<and>
   messages_sent (snd (snd (send_message mock_env agent_A ''0.0.300'' ''hello''))) = 1 \<and>
   last_activity (snd (snd (send_message mock_env agent_A ''0.0.300'' ''hello''))) = Some 1000 \<and>
   \<not> truthy (fst (send_message failing_env agent_A ''0.0.300'' ''hello'')) \<and>
   snd (snd (send_message failing_env agent_A ''0.0.300'' ''hello'')) = agent_A"
proof -
  let ?ok = "send_message mock_env agent_A ''0.0.300'' ''hello''"
  let ?ko = "send_message failing_env agent_A ''0.0.300'' ''hello''"
  have ok: "fst ?ok = Some ''0.0.123456@1234567890.123456789''"
    by (simp add: send_message_def submit_message_def mock_env_def Let_def
                  increment_messages_sent_eq)
  have ko: "fst ?ko = None"
    by (simp add: send_message_def submit_message_def failing_env_def Let_def)
  have "?ok = (fst ?ok, fst (snd ?ok), snd (snd ?ok))" by simp
  from send_message_counter [OF this] ok
  have 1: "snd (snd ?ok) = agent_A\<lparr>messages_sent := messages_sent agent_A + 1,
             last_activity := Some (clock mock_env (ticks mock_env))\<rparr>"
    by simp
  have "?ko = (fst ?ko, fst (snd ?ko), snd (snd ?ko))" by simp
  from send_message_counter [OF this] ko
  have 2: "snd (snd ?ko) = agent_A" by simp
  show ?thesis
    using ok ko 2 by (simp add: 1) (simp add: agent_A_def mock_env_def)
qed

section \<open>MessageRouter: transaction requests\<close>

text \<open>
  The registry method counts a successful transaction request once, and the endpoint
  \<^verbatim>\<open>request_transaction\<close> then counts it a second time before it commits.
\<close>

lemma request_transaction_commits:
  assumes "select_by_account_id db acc = [a]"
  shows "snd (snd (request_transaction e db acc topic schedule_id data)) =
           (if truthy (fst (send_transaction_request e a topic schedule_id data))
            then db_commit db (a\<lparr>messages_sent := messages_sent a + 2,
                                 last_activity := Some (clock e (Suc (ticks e)))\<rparr>)
            else db)"
  using assms
  by (simp add: request_transaction_def split_beta send_transaction_request_agent
        increment_messages_sent_eq send_transaction_request_def submit_message_def Let_def
        add.commute)

text \<open>
  Claim C7 at a failing input. Agent A has sent no message; the transaction request
  through the endpoint succeeds and makes one submission, yet the committed record has
  \<open>messages_sent = 2\<close>. The registry method alone gives 1, and so does the message
  endpoint for one message.
\<close>

theorem request_transaction_counts_twice:
  "messages_sent agent_A = 0 \<and>
   fst (request_transaction mock_env [agent_A] ''0.0.100'' ''0.0.300'' ''0.0.777'' ''pay'') =
     Inr (Some ''0.0.123456@1234567890.123456789'') \<and>
   length (submitted (fst (snd
     (request_transaction mock_env [agent_A] ''0.0.100'' ''0.0.300'' ''0.0.777'' ''pay'')))) = 1 \<and>
   map messages_sent (snd (snd
     (request_transaction mock_env [agent_A] ''0.0.100'' ''0.0.300'' ''0.0.777'' ''pay''))) = [2] \<and>
   messages_sent (snd (snd
     (send_transaction_request mock_env agent_A ''0.0.300'' ''0.0.777'' ''pay''))) = 1 \<and>
   map messages_sent (snd (snd
     (send_message_endpoint mock_env [agent_A] ''0.0.100'' ''0.0.300'' ''pay''))) = [1]"
  by (simp add: request_transaction_def send_message_endpoint_def select_by_account_id_def
        send_transaction_request_def send_message_def submit_message_def Let_def
        increment_messages_sent_eq db_commit_def agent_A_fields mock_env_fields)

section \<open>ConnectionProtocol: the connection request\<close>

text \<open>
  Claim C8, as amended. The method never reads the requester's status. For a requester
  whose outbound topic id is set, it submits one connection-request envelope to the given
  inbound topic, whose operator id is the requester's account id, an at sign and its
  inbound topic id (the text None when that id is absent), and \<open>messages_sent\<close> grows by
  exactly 1 when the submission returns a transaction id and by 0 otherwise. For a
  requester without an outbound topic id it submits nothing, returns no transaction id and
  changes nothing.
\<close>

theorem send_connection_request_envelope:
  "send_connection_request e from_agent to_topic = (tx_id, e', from_agent') \<Longrightarrow>
     (if truthy (outbound_topic_id from_agent)
      then (\<exists>m. submitted e' = submitted e @ [(Some to_topic, m, ''hcs-10:op:3:1'', tx_id)] \<and>
                map_of m ''op'' = Some (JStr ''connection_request'') \<and>
                map_of m ''operator_id'' =
                  Some (JStr (account_id from_agent @ ''@'' @
                              str_opt (inbound_topic_id from_agent)))) \<and>
           messages_sent from_agent' =
             messages_sent from_agent + (if truthy tx_id then 1 else 0)
      else tx_id = None \<and> e' = e \<and> from_agent' = from_agent)"
  by (auto simp: send_connection_request_def Let_def submit_message_eq operator_id_of_def
                 increment_messages_sent_eq
           split: prod.splits if_splits)

theorem send_connection_request_envelope_witness:
  "truthy (outbound_topic_id agent_A) \<and>
   (\<exists>m. submitted (fst (snd (send_connection_request mock_env agent_A ''0.0.201''))) =
          [(Some ''0.0.201'', m, ''hcs-10:op:3:1'',
            Some ''0.0.123456@1234567890.123456789'')] \<and>
        map_of m ''operator_id'' = Some (JStr ''0.0.100@0.0.101'')) \<and>
   messages_sent (snd (snd (send_connection_request mock_env agent_A ''0.0.201''))) = 1"
proof -
  let ?r = "send_connection_request mock_env agent_A ''0.0.201''"
  have tx: "fst ?r = Some ''0.0.123456@1234567890.123456789''"
    by (simp add: send_connection_request_env mock_env_fields agent_A_fields)
  have "?r = (fst ?r, fst (snd ?r), snd (snd ?r))" by simp
  from send_connection_request_envelope [OF this] tx
  show ?thesis by (auto simp: agent_A_fields mock_env_fields)
qed

text \<open>
  Claim C8 as stated fails: the record that the registration with failing topic creations
  leaves is Active, and its connection request through the endpoint submits nothing,
  returns no transaction id and leaves the environment and the table as they were.
\<close>

theorem active_agent_request_not_sent:
  "map status (snd (snd (snd topicless_registration))) = [ACTIVE] \<and>
   request_connection (fst (snd topicless_registration))
       (snd (snd (snd topicless_registration))) ''0.0.100'' ''0.0.201'' =
     (Inr None, fst (snd topicless_registration), snd (snd (snd topicless_registration)))"
proof -
  let ?db = "snd (snd (snd topicless_registration))"
  from singleton_row [OF topicless_registration_result(2)]
  obtain a where a: "?db = [a]" "select_by_account_id ?db ''0.0.100'' = [a]"
    by auto
  with topicless_registration_result(4) have "\<not> truthy (outbound_topic_id a)" by simp
  then show ?thesis
    using a topicless_registration_result(1)
    by (simp add: request_connection_def send_connection_request_no_outbound)
qed

section \<open>Directory: deregistration\<close>

text \<open>
  Claim C9, as amended. A Deleted record stays Deleted along every sequence of delete,
  topic creation, connection request, connection-created notification, message and
  transaction operations. A register call is the one operation that leaves Deleted: it
  sets the status of any record, a Deleted one included, to Active when its submission
  returns a transaction id, and leaves the status alone otherwise.
\<close>

theorem deleted_left_only_by_register:
  "(status (agent_of s) = DELETED \<and> Register \<notin> set ops \<longrightarrow>
      status (agent_of (run s ops)) = DELETED) \<and>
   status (snd (snd (snd (register_agent e reg a)))) =
     (if truthy (fst (register_agent e reg a)) then ACTIVE else status a)"
  using run_keeps_deleted [of s ops] by (simp add: register_agent_agent)

theorem deleted_left_only_by_register_witness:
  "status (agent_of (run state_A [Delete ''0.0.100''])) = DELETED \<and>
   Register \<notin> set [CreateTopics, ConnectionRequest ''0.0.201'',
                     ConnectionCreated agent_B ''0.0.300'' 1, Message ''0.0.300'' ''hello'',
                     Transaction ''0.0.300'' ''0.0.777'' ''pay'', Delete ''0.0.100''] \<and>
   status (agent_of (run (run state_A [Delete ''0.0.100''])
       [CreateTopics, ConnectionRequest ''0.0.201'',
        ConnectionCreated agent_B ''0.0.300'' 1, Message ''0.0.300'' ''hello'',
        Transaction ''0.0.300'' ''0.0.777'' ''pay'', Delete ''0.0.100''])) = DELETED"
  using deleted_left_only_by_register [of "run state_A [Delete ''0.0.100'']"
       "[CreateTopics, ConnectionRequest ''0.0.201'',
        ConnectionCreated agent_B ''0.0.300'' 1, Message ''0.0.300'' ''hello'',
        Transaction ''0.0.300'' ''0.0.777'' ''pay'', Delete ''0.0.100'']"]
    after_delete(1)
  by simp

text \<open>
  Claim C9 as stated fails: agent A is deleted and is Deleted; a register call on the same
  record then makes it Active.
\<close>

theorem deleted_agent_reactivated:
  "status (agent_of (run state_A [Delete ''0.0.100''])) = DELETED \<and>
   status (agent_of (run state_A [Delete ''0.0.100'', Register])) = ACTIVE"
proof -
  let ?s = "run state_A [Delete ''0.0.100'']"
  have "run state_A [Delete ''0.0.100'', Register] = perform ?s Register"
    by (simp add: run_def)
  moreover have "status (agent_of (perform ?s Register)) = ACTIVE"
    using after_delete(2)
    by (cases ?s) (simp only: agent_of_perform fst_conv,
                   simp add: register_agent_agent register_agent_mock)
  ultimately show ?thesis by (simp add: after_delete)
qed

section \<open>Directory: topic creation for an agent\<close>

text \<open>
  Claim C10. \<^verbatim>\<open>create_agent_topics\<close> always makes two \<^verbatim>\<open>create_topic\<close> calls, the inbound
  one and then the outbound one, whatever the first returns. Each of the agent's two topic
  ids is assigned exactly when its own call returned a topic id, and keeps its old value
  otherwise; nothing else in the record changes. There are runs that start without topic
  ids and end with the outbound id set and the inbound id still absent.
\<close>

theorem create_agent_topics_independent:
  "(\<forall>e agent t_in t_out e' agent'.
      create_agent_topics e agent = ((t_in, t_out), e', agent') \<longrightarrow>
      (\<exists>r_in r_out.
        created e' = created e @ [(get_topic_memo agent ''inbound'', True, r_in),
                                  (get_topic_memo agent ''outbound'', True, r_out)] \<and>
        inbound_topic_id agent' = (if truthy r_in then r_in else inbound_topic_id agent) \<and>
        outbound_topic_id agent' = (if truthy r_out then r_out else outbound_topic_id agent) \<and>
        t_in = (if truthy r_in then r_in else None) \<and>
        t_out = (if truthy r_out then r_out else None) \<and>
        agent' = agent\<lparr>inbound_topic_id := inbound_topic_id agent',
                        outbound_topic_id := outbound_topic_id agent'\<rparr>)) \<and>
   (\<exists>e agent. inbound_topic_id agent = None \<and> outbound_topic_id agent = None \<and>
       inbound_topic_id (snd (snd (create_agent_topics e agent))) = None \<and>
       outbound_topic_id (snd (snd (create_agent_topics e agent))) \<noteq> None)"
proof (intro conjI allI impI)
  fix e agent t_in t_out e' agent'
  assume "create_agent_topics e agent = ((t_in, t_out), e', agent')"
  then show "\<exists>r_in r_out.
        created e' = created e @ [(get_topic_memo agent ''inbound'', True, r_in),
                                  (get_topic_memo agent ''outbound'', True, r_out)] \<and>
        inbound_topic_id agent' = (if truthy r_in then r_in else inbound_topic_id agent) \<and>
        outbound_topic_id agent' = (if truthy r_out then r_out else outbound_topic_id agent) \<and>
        t_in = (if truthy r_in then r_in else None) \<and>
        t_out = (if truthy r_out then r_out else None) \<and>
        agent' = agent\<lparr>inbound_topic_id := inbound_topic_id agent',
                        outbound_topic_id := outbound_topic_id agent'\<rparr>"
    by (rule create_agent_topics_effect)
next
  have "inbound_topic_id agent_new = None \<and> outbound_topic_id agent_new = None"
    by (simp add: agent_new_def)
  with create_agent_topics_one_sided
  show "\<exists>e agent. inbound_topic_id agent = None \<and> outbound_topic_id agent = None \<and>
       inbound_topic_id (snd (snd (create_agent_topics e agent))) = None \<and>
       outbound_topic_id (snd (snd (create_agent_topics e agent))) \<noteq> None"
    by (metis option.distinct(1))
qed

theorem create_agent_topics_independent_witness:
  "length (created (fst (snd (create_agent_topics outbound_only_env agent_new)))) = 2 \<and>
   fst (create_agent_topics outbound_only_env agent_new) = (None, Some ''0.0.102'') \<and>
   inbound_topic_id (snd (snd (create_agent_topics outbound_only_env agent_new))) = None \<and>
   outbound_topic_id (snd (snd (create_agent_topics outbound_only_env agent_new))) =
     Some ''0.0.102''"
proof -
  let ?r = "create_agent_topics outbound_only_env agent_new"
  have "?r = ((fst (fst ?r), snd (fst ?r)), fst (snd ?r), snd (snd ?r))" by simp
  with create_agent_topics_independent
  obtain r_in r_out where
    c: "created (fst (snd ?r)) = created outbound_only_env @
          [(get_topic_memo agent_new ''inbound'', True, r_in),
           (get_topic_memo agent_new ''outbound'', True, r_out)]"
    and i: "inbound_topic_id (snd (snd ?r)) =
              (if truthy r_in then r_in else inbound_topic_id agent_new)"
    and t: "fst (fst ?r) = (if truthy r_in then r_in else None)"
           "snd (fst ?r) = (if truthy r_out then r_out else None)"
    and ob: "outbound_topic_id (snd (snd ?r)) =
              (if truthy r_out then r_out else outbound_topic_id agent_new)"
    by blast
  have n: "inbound_topic_id agent_new = None" "outbound_topic_id agent_new = None"
    by (simp_all add: agent_new_def)
  from i ob n create_agent_topics_one_sided
  have "\<not> truthy r_in" "truthy r_out" "r_out = Some ''0.0.102''"
    by (auto split: if_splits)
  with c t i ob n show ?thesis
    by (simp add: prod_eq_iff outbound_only_env_def)
qed

end
